theory Spec2Isabelle
  imports Complex_Main
begin

section \<open>The calculator's expression model (expr.py)\<close>

text \<open>
  The module keeps one global dictionary \<open>ENV\<close> from variable names to the
  \<open>IntConst\<close> objects bound to them. An \<open>IntConst\<close> has the single attribute
  \<open>value\<close>, a Python integer (unbounded), so a bound object is represented by its
  value and the dictionary by a map from names to \<open>int\<close>. Every function that reads
  or writes \<open>ENV\<close> takes the dictionary and returns it.
\<close>

type_synonym env = "string \<rightharpoonup> int"

definition env_clear :: "env \<Rightarrow> env" where
  "env_clear ENV = Map.empty"

text \<open>
  The exceptions the module can raise. \<open>UndefinedVariable\<close> is the module's own
  exception class and carries its message; the others are Python's built-in ones.
\<close>

datatype error =
    NotImplementedError
  | AssertionError
  | ZeroDivisionError
  | AttributeError
  | UndefinedVariable string

text \<open>
  The objects of the class hierarchy. A \<open>BinOp\<close> object holds what
  \<open>_binop_init\<close> stores (\<open>exp1\<close>, \<open>exp2\<close>, \<open>op_sym\<close>, \<open>op_name\<close>) together with
  its concrete class, which selects \<open>_apply\<close>; a \<open>UnOp\<close> object likewise
  (\<open>exp\<close>, \<open>op_sym\<close>, \<open>op_name\<close>). An \<open>Assign\<close> object holds \<open>left\<close> and
  \<open>right\<close>; its constructor asserts that \<open>left\<close> is a \<open>Var\<close>, whose only
  attribute is \<open>name\<close>, so \<open>left\<close> is kept as that name. The base class
  \<open>Expr\<close> is abstract (each of its methods is overridden by every class below)
  and has no objects of its own here.
\<close>

datatype bin_class = Plus_class | Minus_class | Times_class | Div_class

datatype un_class = Neg_class | Abs_class

datatype expr =
    IntConst int
  | BinOp bin_class expr expr string string
  | UnOp un_class expr string string
  | Var string
  | Assign string expr

subsection \<open>Constructors\<close>

text \<open>
  \<open>BinOp.__init__\<close> and \<open>UnOp.__init__\<close> raise; the concrete classes override
  \<open>__init__\<close> and call \<open>_binop_init\<close> / \<open>_unop_init\<close> with their symbol and name.
\<close>

definition BinOp_init :: "expr \<Rightarrow> expr \<Rightarrow> error + expr" where
  "BinOp_init exp1 exp2 = Inl NotImplementedError"

definition binop_init :: "bin_class \<Rightarrow> expr \<Rightarrow> expr \<Rightarrow> string \<Rightarrow> string \<Rightarrow> expr" where
  "binop_init cls exp1 exp2 op_sym op_name = BinOp cls exp1 exp2 op_sym op_name"

definition Plus_init :: "expr \<Rightarrow> expr \<Rightarrow> expr" where
  "Plus_init exp1 exp2 = binop_init Plus_class exp1 exp2 ''+'' ''Plus''"

definition Minus_init :: "expr \<Rightarrow> expr \<Rightarrow> expr" where
  "Minus_init exp1 exp2 = binop_init Minus_class exp1 exp2 ''-'' ''Minus''"

definition Times_init :: "expr \<Rightarrow> expr \<Rightarrow> expr" where
  "Times_init exp1 exp2 = binop_init Times_class exp1 exp2 ''*'' ''Times''"

definition Div_init :: "expr \<Rightarrow> expr \<Rightarrow> expr" where
  "Div_init exp1 exp2 = binop_init Div_class exp1 exp2 ''/'' ''Div''"

definition UnOp_init :: "expr \<Rightarrow> error + expr" where
  "UnOp_init e = Inl NotImplementedError"

definition unop_init :: "un_class \<Rightarrow> expr \<Rightarrow> string \<Rightarrow> string \<Rightarrow> expr" where
  "unop_init cls e op_sym op_name = UnOp cls e op_sym op_name"

definition Neg_init :: "expr \<Rightarrow> expr" where
  "Neg_init e = unop_init Neg_class e ''~'' ''Neg''"

definition Abs_init :: "expr \<Rightarrow> expr" where
  "Abs_init e = unop_init Abs_class e ''@'' ''Abs''"

text \<open>\<open>isinstance(left, Var)\<close>: \<open>Var\<close> has no subclass.\<close>

fun isinstance_Var :: "expr \<Rightarrow> bool" where
  "isinstance_Var (Var name) = True"
| "isinstance_Var _ = False"

text \<open>
  \<open>Assign.__init__\<close>: the \<open>assert\<close> comes first, so a left-hand side that is
  not a \<open>Var\<close> raises \<open>AssertionError\<close> and no object is made (assertions
  enabled, as Python runs by default).
\<close>

fun Assign_init :: "expr \<Rightarrow> expr \<Rightarrow> error + expr" where
  "Assign_init (Var name) right = Inr (Assign name right)"
| "Assign_init left right = Inl AssertionError"

subsection \<open>Evaluation\<close>

text \<open>
  An exception leaves the global dictionary as it was when it was raised, so a
  call returns the exception or the value, and the dictionary in both cases.
\<close>

type_synonym 'a result = "(error + 'a) \<times> env"

text \<open>\<open>_apply\<close> of the four binary classes. Python's \<open>//\<close> on integers is floor
  division and raises \<open>ZeroDivisionError\<close> on a zero divisor.\<close>

fun BinOp_apply :: "bin_class \<Rightarrow> int \<Rightarrow> int \<Rightarrow> error + int" where
  "BinOp_apply Plus_class val1 val2 = Inr (val1 + val2)"
| "BinOp_apply Minus_class val1 val2 = Inr (val1 - val2)"
| "BinOp_apply Times_class val1 val2 = Inr (val1 * val2)"
| "BinOp_apply Div_class val1 val2 =
     (if val2 = 0 then Inl ZeroDivisionError else Inr (val1 div val2))"

text \<open>\<open>_apply\<close> of the two unary classes.\<close>

fun UnOp_apply :: "un_class \<Rightarrow> int \<Rightarrow> error + int" where
  "UnOp_apply Neg_class v = Inr (- v)"
| "UnOp_apply Abs_class v = Inr (\<bar>v\<bar>)"

text \<open>
  Reading an attribute of a \<open>Var\<close> object: the instance has the attribute
  \<open>name\<close>; \<open>Name\<close>, which \<open>Var.eval\<close> reads when it builds the message of
  \<open>UndefinedVariable\<close>, is neither an instance attribute nor a method or class
  attribute, so reading it raises \<open>AttributeError\<close>.
\<close>

definition Var_getattr :: "string \<Rightarrow> string \<Rightarrow> error + string" where
  "Var_getattr name attr = (if attr = ''name'' then Inr name else Inl AttributeError)"

text \<open>\<open>Var.eval\<close>: the message is built before the exception is raised.\<close>

definition Var_eval :: "string \<Rightarrow> env \<Rightarrow> int result" where
  "Var_eval name ENV =
     (case ENV name of
        Some v \<Rightarrow> (Inr v, ENV)
      | None \<Rightarrow>
          (case Var_getattr name ''Name'' of
             Inl err \<Rightarrow> (Inl err, ENV)
           | Inr s \<Rightarrow> (Inl (UndefinedVariable (s @ '' has not been assigned a value!'')), ENV)))"

text \<open>\<open>Var.assign\<close>.\<close>

definition Var_assign :: "string \<Rightarrow> int \<Rightarrow> env \<Rightarrow> env" where
  "Var_assign name v ENV = ENV(name \<mapsto> v)"

text \<open>
  \<open>eval\<close> of every class: \<open>IntConst.eval\<close>, \<open>BinOp.eval\<close> (left operand, then
  right operand, then \<open>_apply\<close>), \<open>UnOp.eval\<close>, \<open>Var.eval\<close> and \<open>Assign.eval\<close>
  (right-hand side, then \<open>assign\<close>).
\<close>

fun eval :: "expr \<Rightarrow> env \<Rightarrow> int result" where
  "eval (IntConst v) ENV = (Inr v, ENV)"
| "eval (BinOp cls exp1 exp2 op_sym op_name) ENV =
     (case eval exp1 ENV of
        (Inl err, ENV1) \<Rightarrow> (Inl err, ENV1)
      | (Inr val1, ENV1) \<Rightarrow>
          (case eval exp2 ENV1 of
             (Inl err, ENV2) \<Rightarrow> (Inl err, ENV2)
           | (Inr val2, ENV2) \<Rightarrow> (BinOp_apply cls val1 val2, ENV2)))"
| "eval (UnOp cls e op_sym op_name) ENV =
     (case eval e ENV of
        (Inl err, ENV1) \<Rightarrow> (Inl err, ENV1)
      | (Inr v, ENV1) \<Rightarrow> (UnOp_apply cls v, ENV1))"
| "eval (Var name) ENV = Var_eval name ENV"
| "eval (Assign left right) ENV =
     (case eval right ENV of
        (Inl err, ENV1) \<Rightarrow> (Inl err, ENV1)
      | (Inr r_val, ENV1) \<Rightarrow> (Inr r_val, Var_assign left r_val ENV1))"

subsection \<open>Equality\<close>





subsection \<open>Text\<close>

text \<open>
  Python's built-in \<open>str\<close> on an integer: the decimal digits, most significant
  first, after a minus sign when the integer is negative.
\<close>

fun str_nat :: "nat \<Rightarrow> string" where
  "str_nat n =
     (if n < 10 then [''0123456789'' ! n]
      else str_nat (n div 10) @ [''0123456789'' ! (n mod 10)])"

declare str_nat.simps [simp del]

definition str_int :: "int \<Rightarrow> string" where
  "str_int i = (if i < 0 then ''-'' @ str_nat (nat (- i)) else str_nat (nat i))"

text \<open>\<open>__str__\<close> of every class.\<close>

fun str :: "expr \<Rightarrow> string" where
  "str (IntConst v) = str_int v"
| "str (BinOp cls exp1 exp2 op_sym op_name) =
     ''('' @ str exp1 @ '' '' @ op_sym @ '' '' @ str exp2 @ '')''"
| "str (UnOp cls e op_sym op_name) = op_sym @ '' '' @ str e"
| "str (Var name) = name"
| "str (Assign left right) = left @ '' = '' @ str right"

text \<open>\<open>__repr__\<close> of every class; \<open>Var.__repr__\<close> is also what \<open>Assign.__repr__\<close>
  calls on its left-hand side.\<close>

definition Var_repr :: "string \<Rightarrow> string" where
  "Var_repr name = ''Var('' @ name @ '')''"

fun repr :: "expr \<Rightarrow> string" where
  "repr (IntConst v) = ''IntConst('' @ str_int v @ '')''"
| "repr (BinOp cls exp1 exp2 op_sym op_name) =
     op_name @ ''('' @ repr exp1 @ '', '' @ repr exp2 @ '')''"
| "repr (UnOp cls e op_sym op_name) = op_name @ ''('' @ repr e @ '')''"
| "repr (Var name) = Var_repr name"
| "repr (Assign left right) = ''Assign('' @ Var_repr left @ '', '' @ repr right @ '')''"

subsection \<open>Auxiliary notions for the properties\<close>

text \<open>Trees without an \<open>Assign\<close> node: the only nodes that write \<open>ENV\<close>.\<close>

fun assign_free :: "expr \<Rightarrow> bool" where
  "assign_free (IntConst v) = True"
| "assign_free (BinOp cls exp1 exp2 op_sym op_name) = (assign_free exp1 \<and> assign_free exp2)"
| "assign_free (UnOp cls e op_sym op_name) = assign_free e"
| "assign_free (Var name) = True"
| "assign_free (Assign left right) = False"

text \<open>Reading a decimal numeral back, to say what "decimal value" means.\<close>

definition digit_val :: "char \<Rightarrow> nat" where
  "digit_val c = of_char c - 48"

definition decimal_nat :: "string \<Rightarrow> nat" where
  "decimal_nat s = foldl (\<lambda>acc c. 10 * acc + digit_val c) 0 s"

fun decimal_int :: "string \<Rightarrow> int" where
  "decimal_int [] = 0"
| "decimal_int (c # cs) =
     (if c = CHR ''-'' then - int (decimal_nat cs) else int (decimal_nat (c # cs)))"

text \<open>
  The decimal numerals: one or more digits with no leading zero, the numeral
  \<open>0\<close> apart; a signed numeral may start with a minus sign, and \<open>-0\<close> is none.
\<close>

definition is_digit :: "char \<Rightarrow> bool" where
  "is_digit c = (c \<in> set ''0123456789'')"

definition decimal_numeral :: "string \<Rightarrow> bool" where
  "decimal_numeral ds =
     (ds \<noteq> [] \<and> list_all is_digit ds \<and> (if hd ds = CHR ''0'' then ds = ''0'' else True))"

fun signed_decimal :: "string \<Rightarrow> bool" where
  "signed_decimal [] = False"
| "signed_decimal (c # cs) =
     (if c = CHR ''-'' then decimal_numeral cs \<and> cs \<noteq> ''0'' else decimal_numeral (c # cs))"

section \<open>Properties\<close>

subsection \<open>Auxiliary lemmas\<close>

text \<open>Without an \<open>Assign\<close> node, evaluation leaves \<open>ENV\<close> as it was, whether it
  returns or raises.\<close>

lemma eval_assign_free: "assign_free e \<Longrightarrow> snd (eval e ENV) = ENV"
proof (induction e arbitrary: ENV)
  case (BinOp cls exp1 exp2 op_sym op_name)
  then have l: "snd (eval exp1 ENV) = ENV" and r: "snd (eval exp2 ENV) = ENV"
    by simp_all
  show ?case
    using l r by (auto split: prod.splits sum.splits)
next
  case (UnOp cls e op_sym op_name)
  then have "snd (eval e ENV) = ENV" by simp
  then show ?case by (auto split: prod.splits sum.splits)
next
  case (Var name)
  show ?case by (simp add: Var_eval_def Var_getattr_def split: option.splits)
qed simp_all

text \<open>\<open>str_int\<close> writes the decimal numeral of its argument: reading it back gives
  the integer.\<close>

lemma digit_val_nth: "d < 10 \<Longrightarrow> digit_val (''0123456789'' ! d) = d"
proof -
  assume "d < 10"
  then have "d \<in> {0, 1, 2, 3, 4, 5, 6, 7, 8, 9}" by auto
  then show ?thesis by (auto simp: digit_val_def)
qed

lemma digit_nth_not_minus: "d < 10 \<Longrightarrow> ''0123456789'' ! d \<noteq> CHR ''-''"
proof -
  assume "d < 10"
  then have "d \<in> {0, 1, 2, 3, 4, 5, 6, 7, 8, 9}" by auto
  then show ?thesis by auto
qed

lemma decimal_nat_snoc: "decimal_nat (s @ [c]) = 10 * decimal_nat s + digit_val c"
  by (simp add: decimal_nat_def)

lemma decimal_nat_str_nat: "decimal_nat (str_nat n) = n"
proof (induction n rule: str_nat.induct)
  case (1 n)
  show ?case
  proof (cases "n < 10")
    case True
    then show ?thesis
      by (subst str_nat.simps) (simp add: decimal_nat_def digit_val_nth)
  next
    case False
    with 1 have "decimal_nat (str_nat (n div 10)) = n div 10" by simp
    with False show ?thesis
      by (subst str_nat.simps) (simp add: decimal_nat_snoc digit_val_nth)
  qed
qed

lemma str_nat_hd: "\<exists>c cs. str_nat n = c # cs \<and> c \<noteq> CHR ''-''"
proof (induction n rule: str_nat.induct)
  case (1 n)
  show ?case
  proof (cases "n < 10")
    case True
    then show ?thesis
      by (subst str_nat.simps) (simp add: digit_nth_not_minus)
  next
    case False
    with 1 obtain c cs where "str_nat (n div 10) = c # cs" "c \<noteq> CHR ''-''" by auto
    with False show ?thesis
      by (subst str_nat.simps) simp
  qed
qed

lemma decimal_int_str_int: "decimal_int (str_int v) = v"
proof (cases "v < 0")
  case True
  then show ?thesis by (simp add: str_int_def decimal_nat_str_nat)
next
  case False
  obtain c cs where s: "str_nat (nat v) = c # cs" and c: "c \<noteq> CHR ''-''"
    using str_nat_hd by blast
  have "decimal_nat (c # cs) = nat v"
    using decimal_nat_str_nat [of "nat v"] s by simp
  with False s c show ?thesis by (simp add: str_int_def)
qed

text \<open>\<open>str_int\<close> writes a signed decimal numeral, and the only one that reads back
  as its argument.\<close>

lemma digit_nth_is_digit: "d < 10 \<Longrightarrow> is_digit (''0123456789'' ! d)"
proof -
  assume "d < 10"
  then have "d \<in> {0, 1, 2, 3, 4, 5, 6, 7, 8, 9}" by auto
  then show ?thesis by (auto simp: is_digit_def)
qed

lemma digit_nth_zero: "d < 10 \<Longrightarrow> (''0123456789'' ! d = CHR ''0'') = (d = 0)"
proof -
  assume "d < 10"
  then have "d \<in> {0, 1, 2, 3, 4, 5, 6, 7, 8, 9}" by auto
  then show ?thesis by auto
qed

lemma str_nat_digits: "str_nat n \<noteq> [] \<and> list_all is_digit (str_nat n)"
proof (induction n rule: str_nat.induct)
  case (1 n)
  show ?case
  proof (cases "n < 10")
    case True
    then show ?thesis
      using digit_nth_is_digit [of n] by (subst (1 2) str_nat.simps) simp
  next
    case False
    with 1 have "list_all is_digit (str_nat (n div 10))" by simp
    with False show ?thesis
      using digit_nth_is_digit [of "n mod 10"] by (subst (1 2) str_nat.simps) simp
  qed
qed

lemma str_nat_hd_zero: "(hd (str_nat n) = CHR ''0'') = (n = 0)"
proof (induction n rule: str_nat.induct)
  case (1 n)
  show ?case
  proof (cases "n < 10")
    case True
    then show ?thesis
      using digit_nth_zero [of n] by (subst str_nat.simps) simp
  next
    case False
    with 1 have ih: "(hd (str_nat (n div 10)) = CHR ''0'') = (n div 10 = 0)" by simp
    have ne: "str_nat (n div 10) \<noteq> []" using str_nat_digits by blast
    from False have "n div 10 \<noteq> 0" "n \<noteq> 0" by auto
    with False ih ne show ?thesis
      by (subst str_nat.simps) simp
  qed
qed

lemma str_nat_zero: "str_nat 0 = ''0''"
  by (subst str_nat.simps) simp

lemma str_nat_eq_zero: "(str_nat n = ''0'') = (n = 0)"
proof
  assume h: "str_nat n = ''0''"
  have z: "decimal_nat ''0'' = 0" by (simp add: decimal_nat_def digit_val_def)
  have "decimal_nat (str_nat n) = n" by (rule decimal_nat_str_nat)
  with h z show "n = 0" by (simp only:)
qed (simp add: str_nat_zero)

lemma decimal_numeral_str_nat: "decimal_numeral (str_nat n)"
  using str_nat_digits [of n] str_nat_hd_zero [of n] str_nat_eq_zero [of n]
  by (simp add: decimal_numeral_def str_nat_zero)

lemma signed_decimal_str_int: "signed_decimal (str_int v)"
proof (cases "v < 0")
  case True
  then have "nat (- v) \<noteq> 0" by simp
  then have "str_nat (nat (- v)) \<noteq> ''0''" by (simp only: str_nat_eq_zero not_False_eq_True)
  with True show ?thesis
    using decimal_numeral_str_nat [of "nat (- v)"] by (simp add: str_int_def)
next
  case False
  obtain c cs where s: "str_nat (nat v) = c # cs" and c: "c \<noteq> CHR ''-''"
    using str_nat_hd by blast
  with False show ?thesis
    using decimal_numeral_str_nat [of "nat v"] by (simp add: str_int_def)
qed


lemma is_digit_val:
  "is_digit c \<Longrightarrow>
     digit_val c < 10 \<and> ''0123456789'' ! digit_val c = c \<and> (digit_val c = 0) = (c = CHR ''0'')"
  by (auto simp: is_digit_def digit_val_def)

lemma decimal_nat_single: "decimal_nat [c] = digit_val c"
  by (simp add: decimal_nat_def)

lemma decimal_nat_pos:
  "ds \<noteq> [] \<Longrightarrow> list_all is_digit ds \<Longrightarrow> hd ds \<noteq> CHR ''0'' \<Longrightarrow> 0 < decimal_nat ds"
proof (induction ds rule: rev_induct)
  case Nil
  then show ?case by simp
next
  case (snoc c xs)
  show ?case
  proof (cases "xs = []")
    case True
    with snoc.prems is_digit_val [of c] show ?thesis
      by (simp add: decimal_nat_single)
  next
    case False
    with snoc have "0 < decimal_nat xs" by simp
    then show ?thesis by (simp add: decimal_nat_snoc)
  qed
qed

lemma str_nat_decimal_nat:
  "decimal_numeral ds \<Longrightarrow> str_nat (decimal_nat ds) = ds"
proof (induction ds rule: rev_induct)
  case Nil
  then show ?case by (simp add: decimal_numeral_def)
next
  case (snoc c xs)
  from snoc.prems have c: "is_digit c" and xs: "list_all is_digit xs"
    by (simp_all add: decimal_numeral_def)
  note d = is_digit_val [OF c]
  show ?case
  proof (cases "xs = []")
    case True
    with d show ?thesis
      by (subst str_nat.simps) (simp add: decimal_nat_single)
  next
    case False
    with snoc.prems have hd: "hd xs \<noteq> CHR ''0''"
      by (auto simp: decimal_numeral_def split: if_splits)
    with False xs have "decimal_numeral xs" by (simp add: decimal_numeral_def)
    with snoc.IH have ih: "str_nat (decimal_nat xs) = xs" by simp
    have pos: "0 < decimal_nat xs" using decimal_nat_pos [OF False xs hd] .
    with d have big: "\<not> 10 * decimal_nat xs + digit_val c < 10" by simp
    from d have dv: "(10 * decimal_nat xs + digit_val c) div 10 = decimal_nat xs"
      and md: "(10 * decimal_nat xs + digit_val c) mod 10 = digit_val c" by simp_all
    show ?thesis
      by (subst str_nat.simps) (simp only: decimal_nat_snoc big dv md ih d if_False)
  qed
qed

lemma str_int_decimal_int: "signed_decimal s \<Longrightarrow> str_int (decimal_int s) = s"
proof (cases s)
  case Nil
  assume "signed_decimal s"
  with Nil show ?thesis by simp
next
  case (Cons c cs)
  assume sd: "signed_decimal s"
  show ?thesis
  proof (cases "c = CHR ''-''")
    case True
    with sd Cons have n: "decimal_numeral cs" and nz: "cs \<noteq> ''0''" by simp_all
    then have "cs \<noteq> []" "list_all is_digit cs" "hd cs \<noteq> CHR ''0''"
      by (auto simp: decimal_numeral_def split: if_splits)
    then have "0 < decimal_nat cs" by (rule decimal_nat_pos)
    with True Cons show ?thesis
      by (simp add: str_int_def str_nat_decimal_nat [OF n])
  next
    case False
    with sd Cons have "decimal_numeral s" by simp
    from str_nat_decimal_nat [OF this] False Cons show ?thesis
      by (simp add: str_int_def)
  qed
qed

lemmas init_defs = Plus_init_def Minus_init_def Times_init_def Div_init_def binop_init_def
  Neg_init_def Abs_init_def unop_init_def

subsection \<open>Undefined variables\<close>

text \<open>
  C1. The claim: evaluating a \<open>Var\<close> whose name has no binding raises
  \<open>UndefinedVariable\<close> and no other error. What \<open>Var.eval\<close> does: in the
  \<open>else\<close> branch it builds the message from \<open>self.Name\<close>, an attribute that no
  \<open>Var\<close> has, so \<open>AttributeError\<close> is raised before \<open>UndefinedVariable\<close> is
  constructed. For every unbound name the exception is \<open>AttributeError\<close>, and
  \<open>ENV\<close> is as before.
\<close>

theorem Var_eval_unbound_raises_AttributeError:
  "ENV name = None \<Longrightarrow> eval (Var name) ENV = (Inl AttributeError, ENV)"
  by (simp add: Var_eval_def Var_getattr_def)

theorem Var_eval_unbound_raises_AttributeError_witness:
  "env_clear [''y'' \<mapsto> 3] ''y'' = None
   \<and> eval (Var ''y'') (env_clear [''y'' \<mapsto> 3]) = (Inl AttributeError, Map.empty)"
  using Var_eval_unbound_raises_AttributeError [of "env_clear [''y'' \<mapsto> 3]" "''y''"]
  by (simp add: env_clear_def)

subsection \<open>Arithmetic\<close>

text \<open>
  C2. On two integer constants \<open>a\<close> and \<open>b\<close>, \<open>Plus\<close> evaluates to \<open>a + b\<close>,
  \<open>Minus\<close> to \<open>a - b\<close>, \<open>Times\<close> to \<open>a * b\<close> and, when \<open>b\<close> is not zero,
  \<open>Div\<close> to the floor of the quotient \<open>a / b\<close>; \<open>Neg\<close> evaluates to \<open>- a\<close>
  and \<open>Abs\<close> to \<open>|a|\<close>. The values are unbounded integers and \<open>ENV\<close> is
  unchanged.
\<close>

theorem arithmetic_on_constants:
  "eval (Plus_init (IntConst a) (IntConst b)) ENV = (Inr (a + b), ENV)
   \<and> eval (Minus_init (IntConst a) (IntConst b)) ENV = (Inr (a - b), ENV)
   \<and> eval (Times_init (IntConst a) (IntConst b)) ENV = (Inr (a * b), ENV)
   \<and> (b \<noteq> 0 \<longrightarrow>
        eval (Div_init (IntConst a) (IntConst b)) ENV = (Inr (a div b), ENV)
        \<and> a div b = \<lfloor>real_of_int a / real_of_int b\<rfloor>)
   \<and> eval (Neg_init (IntConst a)) ENV = (Inr (- a), ENV)
   \<and> eval (Abs_init (IntConst a)) ENV = (Inr \<bar>a\<bar>, ENV)"
  by (simp add: init_defs floor_divide_of_int_eq)

theorem arithmetic_on_constants_witness:
  "(2::int) \<noteq> 0
   \<and> eval (Plus_init (IntConst (- 7)) (IntConst 2)) Map.empty = (Inr (- 5), Map.empty)
   \<and> eval (Minus_init (IntConst (- 7)) (IntConst 2)) Map.empty = (Inr (- 9), Map.empty)
   \<and> eval (Times_init (IntConst (- 7)) (IntConst 2)) Map.empty = (Inr (- 14), Map.empty)
   \<and> eval (Div_init (IntConst (- 7)) (IntConst 2)) Map.empty = (Inr (- 4), Map.empty)
   \<and> eval (Neg_init (IntConst (- 7))) Map.empty = (Inr 7, Map.empty)
   \<and> eval (Abs_init (IntConst (- 7))) Map.empty = (Inr 7, Map.empty)"
  using arithmetic_on_constants [of "- 7" 2 Map.empty] by simp

subsection \<open>Division by zero\<close>

text \<open>
  C3, as stated, fails: with \<open>x\<close> bound to 0, the expression \<open>Var x\<close> evaluates
  to 0, but in \<open>Div(Assign(x, 1), Var x)\<close> the left operand rebinds \<open>x\<close> before the
  right operand is read, and the division returns 1.
\<close>

theorem Div_second_operand_zero_counterexample:
  "eval (Var ''x'') [''x'' \<mapsto> 0] = (Inr 0, [''x'' \<mapsto> 0])
   \<and> eval (Div_init (Assign ''x'' (IntConst 1)) (Var ''x'')) [''x'' \<mapsto> 0]
       = (Inr 1, [''x'' \<mapsto> 1])"
  by (simp add: init_defs Var_eval_def Var_assign_def)

text \<open>
  C3, amended. When the left operand \<open>x\<close> evaluates successfully and the right
  operand \<open>e\<close> then evaluates to 0 in the environment \<open>x\<close> leaves, \<open>Div(x, e)\<close>
  raises \<open>ZeroDivisionError\<close>; in particular \<open>Div(IntConst(7), IntConst(0))\<close>
  does.
\<close>

theorem Div_by_zero_raises:
  assumes "eval x ENV = (Inr a, ENV1)" and "eval e ENV1 = (Inr 0, ENV2)"
  shows "eval (Div_init x e) ENV = (Inl ZeroDivisionError, ENV2)"
  using assms by (simp add: init_defs)

theorem Div_by_zero_raises_witness:
  "eval (IntConst 7) Map.empty = (Inr 7, Map.empty)
   \<and> eval (IntConst 0) Map.empty = (Inr 0, Map.empty)
   \<and> eval (Div_init (IntConst 7) (IntConst 0)) Map.empty = (Inl ZeroDivisionError, Map.empty)"
  using Div_by_zero_raises [of "IntConst 7" Map.empty 7 Map.empty "IntConst 0" Map.empty]
  by simp

subsection \<open>Construction\<close>

text \<open>
  C4. Constructing an \<open>Assign\<close> whose left-hand side is not a \<open>Var\<close> fails in
  the constructor, with the \<open>AssertionError\<close> of its \<open>assert\<close>; the constructor
  neither reads nor writes \<open>ENV\<close> and evaluates nothing.
\<close>

theorem Assign_init_non_Var_raises:
  "\<not> isinstance_Var left \<Longrightarrow> Assign_init left right = Inl AssertionError"
  by (cases left) simp_all

theorem Assign_init_non_Var_raises_witness:
  "\<not> isinstance_Var (IntConst 3) \<and> Assign_init (IntConst 3) (IntConst 4) = Inl AssertionError"
  using Assign_init_non_Var_raises [of "IntConst 3" "IntConst 4"] by simp

text \<open>
  C5. Constructing \<open>BinOp\<close> or \<open>UnOp\<close> itself raises \<open>NotImplementedError\<close>,
  whatever the operands.
\<close>

theorem abstract_init_raises:
  "BinOp_init exp1 exp2 = Inl NotImplementedError \<and> UnOp_init e = Inl NotImplementedError"
  by (simp add: BinOp_init_def UnOp_init_def)

subsection \<open>Assignment\<close>

text \<open>
  C6. When \<open>e\<close> evaluates to \<open>v\<close>, \<open>Assign(Var(x), e)\<close> is constructed,
  evaluates to \<open>v\<close> and leaves \<open>x\<close> bound to \<open>v\<close> in the environment \<open>e\<close> left;
  evaluating \<open>Var(x)\<close> afterwards gives \<open>v\<close>.
\<close>

theorem Assign_binds_and_returns:
  assumes "eval e ENV = (Inr v, ENV1)"
  shows "Assign_init (Var x) e = Inr (Assign x e)
         \<and> eval (Assign x e) ENV = (Inr v, ENV1(x \<mapsto> v))
         \<and> snd (eval (Assign x e) ENV) x = Some v
         \<and> fst (eval (Var x) (snd (eval (Assign x e) ENV))) = Inr v"
  using assms by (simp add: Var_assign_def Var_eval_def)

theorem Assign_binds_and_returns_witness:
  "eval (IntConst 10) Map.empty = (Inr 10, Map.empty)
   \<and> Assign_init (Var ''x'') (IntConst 10) = Inr (Assign ''x'' (IntConst 10))
   \<and> eval (Assign ''x'' (IntConst 10)) Map.empty = (Inr 10, [''x'' \<mapsto> 10])
   \<and> fst (eval (Var ''x'') (snd (eval (Assign ''x'' (IntConst 10)) Map.empty))) = Inr 10"
  using Assign_binds_and_returns [of "IntConst 10" Map.empty 10 Map.empty "''x''"]
  by (simp add: Var_assign_def)

subsection \<open>Equality\<close>




subsection \<open>Text\<close>

text \<open>
  C8. \<open>__str__\<close>: a constant is the decimal numeral of its value, a variable its
  name, a binary operation \<open>(left symbol right)\<close> with the symbols \<open>+ - * /\<close>,
  a unary operation \<open>symbol operand\<close> with the symbols \<open>~\<close> and \<open>@\<close> and no
  parentheses, an assignment \<open>name = right\<close>. \<open>__repr__\<close> is constructor-style
  for every class: the class name (\<open>IntConst\<close>, \<open>Plus\<close>, \<open>Minus\<close>, \<open>Times\<close>,
  \<open>Div\<close>, \<open>Neg\<close>, \<open>Abs\<close>, \<open>Var\<close>, \<open>Assign\<close>) and, in parentheses, the
  \<open>__repr__\<close> of the operands separated by a comma and a space (the value of a
  constant, the bare name of a variable). For \<open>Plus(IntConst(5), IntConst(4))\<close>
  they give \<open>(5 + 4)\<close> and \<open>Plus(IntConst(5), IntConst(4))\<close>.
\<close>

theorem text_rendering:
  "str (IntConst v) = str_int v
   \<and> signed_decimal (str (IntConst v)) \<and> decimal_int (str (IntConst v)) = v
   \<and> str (Var name) = name
   \<and> str (Plus_init l r) = ''('' @ str l @ '' + '' @ str r @ '')''
   \<and> str (Minus_init l r) = ''('' @ str l @ '' - '' @ str r @ '')''
   \<and> str (Times_init l r) = ''('' @ str l @ '' * '' @ str r @ '')''
   \<and> str (Div_init l r) = ''('' @ str l @ '' / '' @ str r @ '')''
   \<and> str (Neg_init e) = ''~ '' @ str e
   \<and> str (Abs_init e) = ''@ '' @ str e
   \<and> Assign_init (Var name) r = Inr (Assign name r)
   \<and> str (Assign name r) = name @ '' = '' @ str r
   \<and> repr (IntConst v) = ''IntConst('' @ str_int v @ '')''
   \<and> repr (Var name) = ''Var('' @ name @ '')''
   \<and> repr (Plus_init l r) = ''Plus('' @ repr l @ '', '' @ repr r @ '')''
   \<and> repr (Minus_init l r) = ''Minus('' @ repr l @ '', '' @ repr r @ '')''
   \<and> repr (Times_init l r) = ''Times('' @ repr l @ '', '' @ repr r @ '')''
   \<and> repr (Div_init l r) = ''Div('' @ repr l @ '', '' @ repr r @ '')''
   \<and> repr (Neg_init e) = ''Neg('' @ repr e @ '')''
   \<and> repr (Abs_init e) = ''Abs('' @ repr e @ '')''
   \<and> repr (Assign name r) = ''Assign(Var('' @ name @ ''), '' @ repr r @ '')''
   \<and> repr (Plus_init (IntConst 5) (IntConst 4)) = ''Plus(IntConst(5), IntConst(4))''
   \<and> str (Plus_init (IntConst 5) (IntConst 4)) = ''(5 + 4)''
   \<and> str (Assign ''x'' (Neg_init (Div_init (IntConst (- 12)) (Abs_init (Var ''y'')))))
       = ''x = ~ (-12 / @ y)''
   \<and> repr (Assign ''x'' (Neg_init (Div_init (IntConst (- 12)) (Abs_init (Var ''y'')))))
       = ''Assign(Var(x), Neg(Div(IntConst(-12), Abs(Var(y)))))''"
proof -
  have five: "str_int 5 = ''5''" and four: "str_int 4 = ''4''"
    and twelve: "str_int (- 12) = ''-12''"
    by code_simp+
  have numeral: "signed_decimal (str_int v) \<and> decimal_int (str_int v) = v"
    by (simp add: signed_decimal_str_int decimal_int_str_int)
  have strs:
    "str (Plus_init l r) = ''('' @ str l @ '' + '' @ str r @ '')''"
    "str (Minus_init l r) = ''('' @ str l @ '' - '' @ str r @ '')''"
    "str (Times_init l r) = ''('' @ str l @ '' * '' @ str r @ '')''"
    "str (Div_init l r) = ''('' @ str l @ '' / '' @ str r @ '')''"
    "str (Neg_init e) = ''~ '' @ str e"
    "str (Abs_init e) = ''@ '' @ str e"
    by (simp_all add: init_defs)
  have reprs:
    "repr (Plus_init l r) = ''Plus('' @ repr l @ '', '' @ repr r @ '')''"
    "repr (Minus_init l r) = ''Minus('' @ repr l @ '', '' @ repr r @ '')''"
    "repr (Times_init l r) = ''Times('' @ repr l @ '', '' @ repr r @ '')''"
    "repr (Div_init l r) = ''Div('' @ repr l @ '', '' @ repr r @ '')''"
    "repr (Neg_init e) = ''Neg('' @ repr e @ '')''"
    "repr (Abs_init e) = ''Abs('' @ repr e @ '')''"
    "repr (Assign name r) = ''Assign(Var('' @ name @ ''), '' @ repr r @ '')''"
    by (simp_all add: init_defs Var_repr_def)
  have examples:
    "repr (Plus_init (IntConst 5) (IntConst 4)) = ''Plus(IntConst(5), IntConst(4))''"
    "str (Plus_init (IntConst 5) (IntConst 4)) = ''(5 + 4)''"
    "str (Assign ''x'' (Neg_init (Div_init (IntConst (- 12)) (Abs_init (Var ''y'')))))
       = ''x = ~ (-12 / @ y)''"
    "repr (Assign ''x'' (Neg_init (Div_init (IntConst (- 12)) (Abs_init (Var ''y'')))))
       = ''Assign(Var(x), Neg(Div(IntConst(-12), Abs(Var(y)))))''"
    by (simp_all add: init_defs Var_repr_def five four twelve)
  show ?thesis
    using numeral strs reprs examples by (simp add: Var_repr_def)
qed

subsection \<open>Errors inside an assignment\<close>

text \<open>
  C9, as stated, fails: a right-hand side can bind variables, the target among
  them, before it raises. Evaluating
  \<open>Assign(x, Plus(Assign(x, 1), Div(1, 0)))\<close> in the empty environment raises
  \<open>ZeroDivisionError\<close> and leaves \<open>x\<close> bound to 1.
\<close>

theorem Assign_error_counterexample:
  "eval (Plus_init (Assign ''x'' (IntConst 1)) (Div_init (IntConst 1) (IntConst 0))) Map.empty
     = (Inl ZeroDivisionError, [''x'' \<mapsto> 1])
   \<and> eval (Assign ''x'' (Plus_init (Assign ''x'' (IntConst 1)) (Div_init (IntConst 1) (IntConst 0))))
        Map.empty
     = (Inl ZeroDivisionError, [''x'' \<mapsto> 1])"
  by (simp add: init_defs Var_assign_def)

text \<open>
  C9, amended. When the right-hand side raises, the assignment raises the same
  error and binds nothing itself: the environment is the one the right-hand side
  left, which is the initial one when the right-hand side contains no assignment.
\<close>

theorem Assign_error_adds_no_binding:
  assumes "eval right ENV = (Inl err, ENV1)"
  shows "eval (Assign left right) ENV = (Inl err, ENV1) \<and> (assign_free right \<longrightarrow> ENV1 = ENV)"
proof
  show "eval (Assign left right) ENV = (Inl err, ENV1)"
    using assms by simp
  show "assign_free right \<longrightarrow> ENV1 = ENV"
    using assms eval_assign_free [of right ENV] by simp
qed

theorem Assign_error_adds_no_binding_witness:
  "eval (Div_init (IntConst 7) (IntConst 0)) Map.empty = (Inl ZeroDivisionError, Map.empty)
   \<and> assign_free (Div_init (IntConst 7) (IntConst 0))
   \<and> eval (Assign ''x'' (Div_init (IntConst 7) (IntConst 0))) Map.empty
       = (Inl ZeroDivisionError, Map.empty)"
proof -
  have h: "eval (Div_init (IntConst 7) (IntConst 0)) Map.empty = (Inl ZeroDivisionError, Map.empty)"
    by (simp add: init_defs)
  have f: "assign_free (Div_init (IntConst 7) (IntConst 0))"
    by (simp add: init_defs)
  show ?thesis
    using h f Assign_error_adds_no_binding [OF h, of "''x''"] by simp
qed

subsection \<open>Order of evaluation\<close>

text \<open>
  C10. A binary operation evaluates its left operand first and its right operand
  in the environment the left operand leaves, then applies the operator. So
  \<open>Plus(Assign(Var(x), IntConst(1)), Var(x))\<close> evaluates to 2 in every
  environment.
\<close>

theorem BinOp_eval_left_to_right:
  assumes "eval exp1 ENV = (Inr val1, ENV1)" and "eval exp2 ENV1 = (Inr val2, ENV2)"
  shows "eval (binop_init cls exp1 exp2 op_sym op_name) ENV = (BinOp_apply cls val1 val2, ENV2)
         \<and> eval (Plus_init (Assign ''x'' (IntConst 1)) (Var ''x'')) E = (Inr 2, E(''x'' \<mapsto> 1))"
  using assms by (simp add: init_defs Var_assign_def Var_eval_def)

theorem BinOp_eval_left_to_right_witness:
  "eval (Assign ''x'' (IntConst 1)) Map.empty = (Inr 1, [''x'' \<mapsto> 1])
   \<and> eval (Var ''x'') [''x'' \<mapsto> 1] = (Inr 1, [''x'' \<mapsto> 1])
   \<and> eval (Plus_init (Assign ''x'' (IntConst 1)) (Var ''x'')) Map.empty = (Inr 2, [''x'' \<mapsto> 1])"
proof -
  have l: "eval (Assign ''x'' (IntConst 1)) Map.empty = (Inr 1, [''x'' \<mapsto> 1])"
    by (simp add: Var_assign_def)
  have r: "eval (Var ''x'') [''x'' \<mapsto> 1] = (Inr 1, [''x'' \<mapsto> 1])"
    by (simp add: Var_eval_def)
  show ?thesis
    using l r BinOp_eval_left_to_right [OF l r, of Plus_class "''+''" "''Plus''" Map.empty]
    by (simp add: Plus_init_def)
qed

end
